theory Spec2Isabelle
  imports Complex_Main "HOL-Library.Sublist"
begin

section \<open>Text as Python and the database see it\<close>

text \<open>
  A string is the list of its code points; only code points below 256 are represented.
  \<open>py_isspace\<close> is \<^verbatim>\<open>str.isspace\<close> on one character: the code points 9 to 13, 28 to 32,
  133 and 160. \<open>py_strip\<close> is \<^verbatim>\<open>str.strip()\<close> with no argument.
\<close>

definition py_isspace :: "char \<Rightarrow> bool" where
  "py_isspace c =
     (let n = (of_char c :: nat)
      in (9 \<le> n \<and> n \<le> 13) \<or> (28 \<le> n \<and> n \<le> 32) \<or> n = 133 \<or> n = 160)"

definition py_strip :: "string \<Rightarrow> string" where
  "py_strip s = rev (dropWhile py_isspace (rev (dropWhile py_isspace s)))"

text \<open>\<^verbatim>\<open>s.split("/")[-1]\<close>: what follows the last slash, the whole text when there is none.\<close>

definition last_segment :: "string \<Rightarrow> string" where
  "last_segment s = rev (takeWhile (\<lambda>c. c \<noteq> CHR ''/'') (rev s))"

text \<open>
  \<^verbatim>\<open>Product.name.ilike(pattern)\<close> is compiled to \<^verbatim>\<open>lower(name) LIKE lower(pattern)\<close>.
  \<open>sql_lower\<close> is the database's LOWER on the code points below 256: it folds the
  letters A to Z and the capital letters of Latin-1 (the code points 192 to 222, without
  the multiplication sign 215) to the small letter 32 places further, and leaves every
  other character alone. \<open>like\<close> is the LIKE operator with its two standard wildcards, the
  percent sign for any run of characters and the underscore for any single one. The first
  argument is the pattern.
\<close>

definition lower_char :: "char \<Rightarrow> char" where
  "lower_char c =
     (let n = (of_char c :: nat)
      in if (65 \<le> n \<and> n \<le> 90) \<or> (192 \<le> n \<and> n \<le> 222 \<and> n \<noteq> 215)
         then char_of (n + 32) else c)"

definition sql_lower :: "string \<Rightarrow> string" where
  "sql_lower s = map lower_char s"

fun like :: "string \<Rightarrow> string \<Rightarrow> bool" where
  "like [] s = (s = [])"
| "like (p # ps) [] = (p = CHR ''%'' \<and> like ps [])"
| "like (p # ps) (c # cs) =
     (if p = CHR ''%'' then like ps (c # cs) \<or> like (p # ps) cs
      else if p = CHR ''_'' then like ps cs
      else p = c \<and> like ps cs)"

definition ilike :: "string \<Rightarrow> string \<Rightarrow> bool" where
  "ilike column pattern = like (sql_lower pattern) (sql_lower column)"

definition like_wildcard :: "char \<Rightarrow> bool" where
  "like_wildcard c = (c = CHR ''%'' \<or> c = CHR ''_'' \<or> c = CHR ''['')"

text \<open>
  ASCII text, and letter case on it: \<open>ascii_lower\<close> turns each of the letters A to Z into
  its small letter and changes nothing else. Two ASCII texts are the same but for letter
  case when \<open>ascii_lower\<close> makes them equal. Python compares the words \<^verbatim>\<open>inf\<close> and
  \<^verbatim>\<open>nan\<close> of a float in this way.
\<close>

definition is_ascii :: "char \<Rightarrow> bool" where
  "is_ascii c = ((of_char c :: nat) < 128)"

definition ascii_lower_char :: "char \<Rightarrow> char" where
  "ascii_lower_char c =
     (let n = (of_char c :: nat) in if 65 \<le> n \<and> n \<le> 90 then char_of (n + 32) else c)"

definition ascii_lower :: "string \<Rightarrow> string" where
  "ascii_lower s = map ascii_lower_char s"

text \<open>\<^verbatim>\<open>str(n)\<close> for a count: the decimal digits, most significant first.\<close>

definition digit_char :: "nat \<Rightarrow> char" where
  "digit_char d = char_of (48 + d)"

function py_str :: "nat \<Rightarrow> string" where
  "py_str n = (if n < 10 then [digit_char n] else py_str (n div 10) @ [digit_char (n mod 10)])"
  by pat_completeness auto
termination
  by (relation "measure (\<lambda>n. n)") auto

declare py_str.simps [simp del]

section \<open>Data model\<close>

text \<open>
  The \<^verbatim>\<open>Product\<close> table row. The type \<open>'f\<close> stands for Python's float, the type of the
  price column.
\<close>

record 'f product =
  product_id :: int
  name :: string
  price :: 'f
  description :: "string option"
  image_url :: "string option"

text \<open>
  Whatever the handlers' blanket \<^verbatim>\<open>except Exception\<close> can catch: the \<^verbatim>\<open>ValueError\<close> of
  \<^verbatim>\<open>float\<close> and of the storage client's constructor, the storage service's
  \<^verbatim>\<open>ResourceNotFoundError\<close>, any other failure of the storage service, and any failure
  of the database.
\<close>

datatype exn = ValueError | ResourceNotFoundError | StorageError | DatabaseError

text \<open>
  What \<^verbatim>\<open>jsonify\<close> is given. \<open>JExnText e\<close> is the JSON string \<^verbatim>\<open>str(e)\<close>, whose
  text is left uninterpreted.
\<close>

datatype 'f json =
    JNull
  | JInt int
  | JFloat 'f
  | JStr string
  | JExnText exn
  | JArr "'f json list"
  | JObj "(string \<times> 'f json) list"

record 'f response =
  status :: nat
  body :: "'f json"

record file_storage =
  filename :: string
  stream :: string

text \<open>The multipart form of \<^verbatim>\<open>POST /products\<close>; \<open>None\<close> is a field that was not sent.\<close>

record create_request =
  form_name :: "string option"
  form_price :: "string option"
  form_description :: "string option"
  files_image :: "file_storage option"

section \<open>The two services behind the handlers\<close>

datatype db_call = SelectAll | SelectById int | SelectLike string | InsertRow | DeleteRow int | DeleteAllRows

datatype storage_call = UploadBlob string | DeleteBlob string

text \<open>
  The state a request runs against: the table with its identity counter, the container
  \<^verbatim>\<open>product-images\<close> as a map from blob name to content, and for each service the list of
  calls it has received. A service can fail: \<open>None\<close> in \<open>db_calls_left\<close> or
  \<open>storage_calls_left\<close> is a service that answers every call, \<open>Some n\<close> one that answers
  \<open>n\<close> more calls and fails every call after them. A failing call is still recorded.
\<close>

record 'f world =
  rows :: "'f product list"
  next_id :: int
  db_calls_left :: "nat option"
  db_log :: "db_call list"
  blobs :: "string \<rightharpoonup> string"
  storage_calls_left :: "nat option"
  storage_log :: "storage_call list"

definition db_round_trip :: "db_call \<Rightarrow> 'f world \<Rightarrow> (exn + unit) \<times> 'f world" where
  "db_round_trip c w =
     (let w' = w\<lparr>db_log := db_log w @ [c]\<rparr>
      in case db_calls_left w of
           None \<Rightarrow> (Inr (), w')
         | Some 0 \<Rightarrow> (Inl DatabaseError, w')
         | Some (Suc n) \<Rightarrow> (Inr (), w'\<lparr>db_calls_left := Some n\<rparr>))"

definition storage_round_trip :: "storage_call \<Rightarrow> 'f world \<Rightarrow> (exn + unit) \<times> 'f world" where
  "storage_round_trip c w =
     (let w' = w\<lparr>storage_log := storage_log w @ [c]\<rparr>
      in case storage_calls_left w of
           None \<Rightarrow> (Inr (), w')
         | Some 0 \<Rightarrow> (Inl StorageError, w')
         | Some (Suc n) \<Rightarrow> (Inr (), w'\<lparr>storage_calls_left := Some n\<rparr>))"

text \<open>\<^verbatim>\<open>Product.query.all()\<close>\<close>

definition query_all :: "'f world \<Rightarrow> (exn + 'f product list) \<times> 'f world" where
  "query_all w =
     (case db_round_trip SelectAll w of
        (Inl e, w') \<Rightarrow> (Inl e, w')
      | (Inr _, w') \<Rightarrow> (Inr (rows w'), w'))"

text \<open>\<^verbatim>\<open>Product.query.get(product_id)\<close>\<close>

definition query_get :: "int \<Rightarrow> 'f world \<Rightarrow> (exn + 'f product option) \<times> 'f world" where
  "query_get pid w =
     (case db_round_trip (SelectById pid) w of
        (Inl e, w') \<Rightarrow> (Inl e, w')
      | (Inr _, w') \<Rightarrow> (Inr (find (\<lambda>p. product_id p = pid) (rows w')), w'))"

text \<open>\<^verbatim>\<open>Product.query.filter(Product.name.ilike(pattern)).all()\<close>\<close>

definition query_ilike :: "string \<Rightarrow> 'f world \<Rightarrow> (exn + 'f product list) \<times> 'f world" where
  "query_ilike pattern w =
     (case db_round_trip (SelectLike pattern) w of
        (Inl e, w') \<Rightarrow> (Inl e, w')
      | (Inr _, w') \<Rightarrow> (Inr (filter (\<lambda>p. ilike (name p) pattern) (rows w')), w'))"

text \<open>
  \<^verbatim>\<open>db.session.add(new_product); db.session.commit()\<close>: one transaction, which either
  adds the row under the next identity value or fails and changes no row.
\<close>

definition session_add_commit ::
  "string \<Rightarrow> 'f \<Rightarrow> string option \<Rightarrow> string option \<Rightarrow> 'f world \<Rightarrow> (exn + unit) \<times> 'f world" where
  "session_add_commit n pr d u w =
     (case db_round_trip InsertRow w of
        (Inl e, w') \<Rightarrow> (Inl e, w')
      | (Inr _, w') \<Rightarrow>
          (Inr (),
           w'\<lparr>rows := rows w' @
                 [\<lparr>product_id = next_id w', name = n, price = pr, description = d, image_url = u\<rparr>],
               next_id := next_id w' + 1\<rparr>))"

text \<open>\<^verbatim>\<open>db.session.delete(product); db.session.commit()\<close>\<close>

definition session_delete_commit :: "'f product \<Rightarrow> 'f world \<Rightarrow> (exn + unit) \<times> 'f world" where
  "session_delete_commit p w =
     (case db_round_trip (DeleteRow (product_id p)) w of
        (Inl e, w') \<Rightarrow> (Inl e, w')
      | (Inr _, w') \<Rightarrow>
          (Inr (), w'\<lparr>rows := filter (\<lambda>r. product_id r \<noteq> product_id p) (rows w')\<rparr>))"

text \<open>
  \<^verbatim>\<open>num_deleted = db.session.query(Product).delete(); db.session.commit()\<close>: the
  number of rows the statement matched, which is every row of the table.
\<close>

definition query_delete_commit :: "'f world \<Rightarrow> (exn + nat) \<times> 'f world" where
  "query_delete_commit w =
     (case db_round_trip DeleteAllRows w of
        (Inl e, w') \<Rightarrow> (Inl e, w')
      | (Inr _, w') \<Rightarrow> (Inr (length (rows w')), w'\<lparr>rows := []\<rparr>))"

text \<open>
  \<^verbatim>\<open>blob_service_client.get_blob_client(container=AZURE_CONTAINER_NAME, blob=b)\<close> makes
  no call to the service; the client's constructor raises \<^verbatim>\<open>ValueError\<close> when the blob
  name is empty.
\<close>

definition get_blob_client :: "string \<Rightarrow> exn + string" where
  "get_blob_client b = (if b = [] then Inl ValueError else Inr b)"

text \<open>\<^verbatim>\<open>blob_client.upload_blob(file, overwrite=True)\<close>\<close>

definition upload_blob :: "string \<Rightarrow> string \<Rightarrow> 'f world \<Rightarrow> (exn + unit) \<times> 'f world" where
  "upload_blob b content w =
     (case storage_round_trip (UploadBlob b) w of
        (Inl e, w') \<Rightarrow> (Inl e, w')
      | (Inr _, w') \<Rightarrow> (Inr (), w'\<lparr>blobs := (blobs w')(b \<mapsto> content)\<rparr>))"

text \<open>
  \<^verbatim>\<open>blob_client.delete_blob()\<close>: the service answers a blob it does not hold with
  \<^verbatim>\<open>ResourceNotFoundError\<close>.
\<close>

definition delete_blob :: "string \<Rightarrow> 'f world \<Rightarrow> (exn + unit) \<times> 'f world" where
  "delete_blob b w =
     (case storage_round_trip (DeleteBlob b) w of
        (Inl e, w') \<Rightarrow> (Inl e, w')
      | (Inr _, w') \<Rightarrow>
          (case blobs w' b of
             None \<Rightarrow> (Inl ResourceNotFoundError, w')
           | Some _ \<Rightarrow> (Inr (), w'\<lparr>blobs := (blobs w')(b := None)\<rparr>)))"

section \<open>The request handlers\<close>

text \<open>
  What the module takes from its libraries and its configuration: werkzeug's
  \<^verbatim>\<open>secure_filename\<close>, Python's \<^verbatim>\<open>float\<close> on text (\<open>None\<close> where it raises
  \<^verbatim>\<open>ValueError\<close>), and the storage account's name.
\<close>

record 'f env =
  secure_filename :: "string \<Rightarrow> string"
  py_float :: "string \<Rightarrow> 'f option"
  account_name :: string

definition AZURE_CONTAINER_NAME :: string where
  "AZURE_CONTAINER_NAME = ''product-images''"

text \<open>Python's truth value of an optional text: \<^verbatim>\<open>None\<close> and the empty text are false.\<close>

definition truthy :: "string option \<Rightarrow> bool" where
  "truthy x = (case x of None \<Rightarrow> False | Some s \<Rightarrow> s \<noteq> [])"

definition failed :: "string \<Rightarrow> exn \<Rightarrow> 'f response" where
  "failed summary e =
     \<lparr>status = 500, body = JObj [(''error'', JStr summary), (''details'', JExnText e)]\<rparr>"

definition blob_url :: "'f env \<Rightarrow> string \<Rightarrow> string" where
  "blob_url env b =
     ''https://'' @ account_name env @ ''.blob.core.windows.net/'' @ AZURE_CONTAINER_NAME @ ''/'' @ b"

text \<open>The body of \<^verbatim>\<open>if file:\<close> in \<^verbatim>\<open>add_product\<close>, yielding \<^verbatim>\<open>image_url\<close>.\<close>

definition store_image ::
  "'f env \<Rightarrow> file_storage \<Rightarrow> 'f world \<Rightarrow> (exn + string option) \<times> 'f world" where
  "store_image env f w =
     (let b = secure_filename env (filename f)
      in case get_blob_client b of
           Inl e \<Rightarrow> (Inl e, w)
         | Inr client \<Rightarrow>
             (case upload_blob client (stream f) w of
                (Inl e, w') \<Rightarrow> (Inl e, w')
              | (Inr _, w') \<Rightarrow> (Inr (Some (blob_url env b)), w')))"

text \<open>
  \<^verbatim>\<open>if file:\<close> tests \<^verbatim>\<open>request.files.get("image")\<close>, which is \<^verbatim>\<open>None\<close> or a
  \<^verbatim>\<open>FileStorage\<close>; a \<^verbatim>\<open>FileStorage\<close> is true when its filename is not empty.
  \<^verbatim>\<open>float(price)\<close> is evaluated where the \<^verbatim>\<open>Product\<close> is built, after the upload.
\<close>

definition add_product :: "'f env \<Rightarrow> 'f world \<Rightarrow> create_request \<Rightarrow> 'f response \<times> 'f world" where
  "add_product env w req =
     (if \<not> truthy (form_name req) \<or> \<not> truthy (form_price req)
      then (\<lparr>status = 400, body = JObj [(''error'', JStr ''Name and price are required'')]\<rparr>, w)
      else
        case (case files_image req of
                None \<Rightarrow> (Inr None, w)
              | Some f \<Rightarrow> if filename f \<noteq> [] then store_image env f w else (Inr None, w)) of
          (Inl e, w1) \<Rightarrow> (failed ''Failed to add product'' e, w1)
        | (Inr url, w1) \<Rightarrow>
            (case py_float env (case form_price req of None \<Rightarrow> [] | Some t \<Rightarrow> t) of
               None \<Rightarrow> (failed ''Failed to add product'' ValueError, w1)
             | Some pr \<Rightarrow>
                 (case session_add_commit (case form_name req of None \<Rightarrow> [] | Some t \<Rightarrow> t) pr
                         (form_description req) url w1 of
                    (Inl e, w2) \<Rightarrow> (failed ''Failed to add product'' e, w2)
                  | (Inr _, w2) \<Rightarrow>
                      (\<lparr>status = 201,
                        body = JObj [(''message'', JStr ''Product added successfully'')]\<rparr>, w2))))"

text \<open>One element of the array that \<^verbatim>\<open>get_products\<close> and \<^verbatim>\<open>search_products\<close> return.\<close>

definition product_json :: "'f product \<Rightarrow> 'f json" where
  "product_json p =
     JObj [(''id'', JInt (product_id p)),
           (''name'', JStr (name p)),
           (''price'', JFloat (price p)),
           (''description'', (case description p of None \<Rightarrow> JNull | Some d \<Rightarrow> JStr d)),
           (''image_url'', JStr (case image_url p of
                                    None \<Rightarrow> []
                                  | Some u \<Rightarrow> if u \<noteq> [] then u else []))]"

definition get_products :: "'f world \<Rightarrow> 'f response \<times> 'f world" where
  "get_products w =
     (case query_all w of
        (Inl e, w') \<Rightarrow> (failed ''Failed to fetch products'' e, w')
      | (Inr ps, w') \<Rightarrow> (\<lparr>status = 200, body = JArr (map product_json ps)\<rparr>, w'))"

text \<open>The body of \<^verbatim>\<open>if product.image_url:\<close> in \<^verbatim>\<open>delete_product\<close>.\<close>

definition remove_image :: "string \<Rightarrow> 'f world \<Rightarrow> (exn + unit) \<times> 'f world" where
  "remove_image url w =
     (case get_blob_client (last_segment url) of
        Inl e \<Rightarrow> (Inl e, w)
      | Inr client \<Rightarrow> delete_blob client w)"

definition delete_product :: "'f world \<Rightarrow> int \<Rightarrow> 'f response \<times> 'f world" where
  "delete_product w pid =
     (case query_get pid w of
        (Inl e, w1) \<Rightarrow> (failed ''Failed to delete product'' e, w1)
      | (Inr None, w1) \<Rightarrow>
          (\<lparr>status = 404, body = JObj [(''error'', JStr ''Product not found'')]\<rparr>, w1)
      | (Inr (Some p), w1) \<Rightarrow>
          (case (if truthy (image_url p)
                 then remove_image (case image_url p of None \<Rightarrow> [] | Some u \<Rightarrow> u) w1
                 else (Inr (), w1)) of
             (Inl e, w2) \<Rightarrow> (failed ''Failed to delete product'' e, w2)
           | (Inr _, w2) \<Rightarrow>
               (case session_delete_commit p w2 of
                  (Inl e, w3) \<Rightarrow> (failed ''Failed to delete product'' e, w3)
                | (Inr _, w3) \<Rightarrow>
                    (\<lparr>status = 200,
                      body = JObj [(''message'', JStr ''Product deleted successfully'')]\<rparr>, w3))))"

definition delete_all_products :: "'f world \<Rightarrow> 'f response \<times> 'f world" where
  "delete_all_products w =
     (case query_delete_commit w of
        (Inl e, w') \<Rightarrow> (failed ''Failed to delete all products'' e, w')
      | (Inr num_deleted, w') \<Rightarrow>
          (\<lparr>status = 200,
            body = JObj [(''message'', JStr (''Deleted '' @ py_str num_deleted @ '' products''))]\<rparr>,
           w'))"

text \<open>\<open>q\<close> is the query parameter of the same name, \<open>None\<close> when the request has none.\<close>

definition search_products :: "'f world \<Rightarrow> string option \<Rightarrow> 'f response \<times> 'f world" where
  "search_products w q =
     (let query = py_strip (case q of None \<Rightarrow> [] | Some s \<Rightarrow> s)
      in if query = [] then get_products w
         else
           case query_ilike (''%'' @ query @ ''%'') w of
             (Inl e, w') \<Rightarrow> (failed ''Failed to search products'' e, w')
           | (Inr ps, w') \<Rightarrow> (\<lparr>status = 200, body = JArr (map product_json ps)\<rparr>, w'))"

section \<open>The libraries on plain text, and a sample catalog\<close>

text \<open>
  Python's \<^verbatim>\<open>float\<close> on text, following the language reference: surrounding white
  space is dropped, then an optional sign, then \<^verbatim>\<open>inf\<close>, \<^verbatim>\<open>infinity\<close> or
  \<^verbatim>\<open>nan\<close> in any letter case, or a decimal number with an optional exponent, whose
  groups of digits may hold single underscores between digits. The result is the number
  that was read; its rounding to a 64-bit float is not modelled.
\<close>

datatype pyfloat = Finite rat | Infinite bool | NaN

definition is_digit :: "char \<Rightarrow> bool" where
  "is_digit c = (let n = (of_char c :: nat) in 48 \<le> n \<and> n \<le> 57)"

fun digitpart :: "string \<Rightarrow> bool" where
  "digitpart [] = False"
| "digitpart [c] = is_digit c"
| "digitpart (c # d # cs) =
     (is_digit c \<and> (if d = CHR ''_'' then digitpart cs else digitpart (d # cs)))"

definition digits_value :: "string \<Rightarrow> nat" where
  "digits_value s = foldl (\<lambda>a c. 10 * a + (of_char c - 48)) 0 (filter is_digit s)"

definition signed :: "string \<Rightarrow> bool \<times> string" where
  "signed s =
     (case s of
        [] \<Rightarrow> (False, [])
      | c # cs \<Rightarrow>
          if c = CHR ''-'' then (True, cs) else if c = CHR ''+'' then (False, cs) else (False, s))"

definition exponent_value :: "string \<Rightarrow> int option" where
  "exponent_value s =
     (case signed s of
        (neg, ds) \<Rightarrow>
          if digitpart ds
          then Some (if neg then - int (digits_value ds) else int (digits_value ds))
          else None)"

definition mantissa_value :: "string \<Rightarrow> rat option" where
  "mantissa_value m =
     (let ip = takeWhile (\<lambda>c. c \<noteq> CHR ''.'') m;
          rest = dropWhile (\<lambda>c. c \<noteq> CHR ''.'') m
      in case rest of
           [] \<Rightarrow> if digitpart ip then Some (of_nat (digits_value ip)) else None
         | _ # fp \<Rightarrow>
             if (fp = [] \<and> digitpart ip) \<or> (digitpart fp \<and> (ip = [] \<or> digitpart ip))
             then Some (of_nat (digits_value ip)
                        + of_nat (digits_value fp) / 10 ^ length (filter is_digit fp))
             else None)"

definition scale10 :: "rat \<Rightarrow> int \<Rightarrow> rat" where
  "scale10 v e = (if 0 \<le> e then v * 10 ^ nat e else v / 10 ^ nat (- e))"

definition python_float :: "string \<Rightarrow> pyfloat option" where
  "python_float t =
     (case signed (py_strip t) of
        (neg, a) \<Rightarrow>
          if ascii_lower a = ''inf'' \<or> ascii_lower a = ''infinity'' then Some (Infinite neg)
          else if ascii_lower a = ''nan'' then Some NaN
          else
            let m = takeWhile (\<lambda>c. c \<noteq> CHR ''e'' \<and> c \<noteq> CHR ''E'') a;
                rest = dropWhile (\<lambda>c. c \<noteq> CHR ''e'' \<and> c \<noteq> CHR ''E'') a
            in (case mantissa_value m of
                  None \<Rightarrow> None
                | Some v \<Rightarrow>
                    (case rest of
                       [] \<Rightarrow> Some (Finite (if neg then - v else v))
                     | _ # ex \<Rightarrow>
                         (case exponent_value ex of
                            None \<Rightarrow> None
                          | Some e \<Rightarrow>
                              Some (Finite (if neg then - scale10 v e else scale10 v e))))))"

text \<open>
  werkzeug's \<^verbatim>\<open>secure_filename\<close> on a POSIX system. The library first normalises the
  name to the form NFKD and drops what is not ASCII: \<open>nfkd_ascii\<close> gives, for a code point
  below 256, the ASCII characters that remain of it (the base letter of an accented
  letter, the digits of a superscript or a fraction, a space for the no-break space and
  the spacing accents, nothing for the rest). Then slashes become spaces, the words are
  joined by underscores, every character that is not a letter, a digit, an underscore, a
  dot or a hyphen is removed, and dots and underscores are stripped from both ends.
\<close>

definition nfkd_ascii :: "char \<Rightarrow> string" where
  "nfkd_ascii c =
     (let n = (of_char c :: nat)
      in if n < 128 then [c]
         else if n = 160 \<or> n = 168 \<or> n = 175 \<or> n = 180 \<or> n = 184 then '' ''
         else if n = 170 then ''a''
         else if n = 178 then ''2''
         else if n = 179 then ''3''
         else if n = 185 then ''1''
         else if n = 186 then ''o''
         else if n = 188 then ''14''
         else if n = 189 then ''12''
         else if n = 190 then ''34''
         else if 192 \<le> n \<and> n \<le> 197 then ''A''
         else if n = 199 then ''C''
         else if 200 \<le> n \<and> n \<le> 203 then ''E''
         else if 204 \<le> n \<and> n \<le> 207 then ''I''
         else if n = 209 then ''N''
         else if 210 \<le> n \<and> n \<le> 214 then ''O''
         else if 217 \<le> n \<and> n \<le> 220 then ''U''
         else if n = 221 then ''Y''
         else if 224 \<le> n \<and> n \<le> 229 then ''a''
         else if n = 231 then ''c''
         else if 232 \<le> n \<and> n \<le> 235 then ''e''
         else if 236 \<le> n \<and> n \<le> 239 then ''i''
         else if n = 241 then ''n''
         else if 242 \<le> n \<and> n \<le> 246 then ''o''
         else if 249 \<le> n \<and> n \<le> 252 then ''u''
         else if n = 253 \<or> n = 255 then ''y''
         else [])"

definition safe_char :: "char \<Rightarrow> bool" where
  "safe_char c =
     (let n = (of_char c :: nat)
      in (48 \<le> n \<and> n \<le> 57) \<or> (65 \<le> n \<and> n \<le> 90) \<or> (97 \<le> n \<and> n \<le> 122)
         \<or> c = CHR ''_'' \<or> c = CHR ''.'' \<or> c = CHR ''-'')"

fun split_ws :: "string \<Rightarrow> string \<Rightarrow> string list" where
  "split_ws acc [] = (if acc = [] then [] else [acc])"
| "split_ws acc (c # cs) =
     (if py_isspace c then (if acc = [] then split_ws [] cs else acc # split_ws [] cs)
      else split_ws (acc @ [c]) cs)"

fun join_underscore :: "string list \<Rightarrow> string" where
  "join_underscore [] = []"
| "join_underscore [w] = w"
| "join_underscore (w # v # ws) = w @ ''_'' @ join_underscore (v # ws)"

definition strip_dots :: "string \<Rightarrow> string" where
  "strip_dots s =
     rev (dropWhile (\<lambda>c. c = CHR ''.'' \<or> c = CHR ''_'')
            (rev (dropWhile (\<lambda>c. c = CHR ''.'' \<or> c = CHR ''_'') s)))"

definition werkzeug_secure_filename :: "string \<Rightarrow> string" where
  "werkzeug_secure_filename f =
     strip_dots
       (filter safe_char
          (join_underscore
             (split_ws []
                (map (\<lambda>c. if c = CHR ''/'' then CHR '' '' else c)
                   (concat (map nfkd_ascii f))))))"

definition python_env :: "pyfloat env" where
  "python_env =
     \<lparr>secure_filename = werkzeug_secure_filename,
      py_float = python_float,
      account_name = ''catalogstore''\<rparr>"

text \<open>A catalog of one product with an image, and the same catalog after the blob was lost.\<close>

definition red_mug :: "pyfloat product" where
  "red_mug =
     \<lparr>product_id = 1, name = ''Red Mug'', price = Finite (19 / 2), description = None,
      image_url = Some ''https://catalogstore.blob.core.windows.net/product-images/mug.png''\<rparr>"

definition empty_shop :: "pyfloat world" where
  "empty_shop =
     \<lparr>rows = [], next_id = 1, db_calls_left = None, db_log = [],
      blobs = Map.empty, storage_calls_left = None, storage_log = []\<rparr>"

definition mug_shop :: "pyfloat world" where
  "mug_shop = empty_shop\<lparr>rows := [red_mug], next_id := 2, blobs := [''mug.png'' \<mapsto> ''PNG'']\<rparr>"

definition mug_shop_blob_lost :: "pyfloat world" where
  "mug_shop_blob_lost = mug_shop\<lparr>blobs := Map.empty\<rparr>"

definition mug_photo :: file_storage where
  "mug_photo = \<lparr>filename = ''mug.png'', stream = ''PNG''\<rparr>"

definition blue_cup :: "pyfloat product" where
  "blue_cup =
     \<lparr>product_id = 2, name = ''Blue Cup'', price = Finite 4, description = Some ''A cup'',
      image_url = None\<rparr>"

definition two_item_shop :: "pyfloat world" where
  "two_item_shop = mug_shop\<lparr>rows := [red_mug, blue_cup], next_id := 3\<rparr>"

definition mug_request :: create_request where
  "mug_request =
     \<lparr>form_name = Some ''Red Mug'', form_price = Some ''9.5'', form_description = None,
      files_image = Some mug_photo\<rparr>"

definition nameless_request :: create_request where
  "nameless_request = mug_request\<lparr>form_name := None\<rparr>"

definition bad_price_request :: create_request where
  "bad_price_request = mug_request\<lparr>form_price := Some ''abc''\<rparr>"

text \<open>What a JSON object holds under a key; nothing for a value that is not an object.\<close>

definition json_field :: "string \<Rightarrow> 'f json \<Rightarrow> 'f json option" where
  "json_field k j = (case j of JObj kvs \<Rightarrow> map_of kvs k | _ \<Rightarrow> None)"

lemmas service_defs =
  db_round_trip_def storage_round_trip_def query_all_def query_get_def query_ilike_def
  session_add_commit_def session_delete_commit_def query_delete_commit_def
  get_blob_client_def upload_blob_def delete_blob_def

lemmas sample_defs =
  python_env_def red_mug_def blue_cup_def empty_shop_def mug_shop_def mug_shop_blob_lost_def
  two_item_shop_def mug_photo_def mug_request_def nameless_request_def bad_price_request_def

section \<open>Facts about text\<close>

subsection \<open>Case folding and LIKE\<close>

text \<open>LOWER neither makes nor unmakes a character that is no letter.\<close>

lemma lower_char_eq_iff:
  assumes "(of_char d :: nat) < 65
           \<or> (90 < (of_char d :: nat) \<and> (of_char d :: nat) < 97)
           \<or> (122 < (of_char d :: nat) \<and> (of_char d :: nat) < 192)"
  shows "lower_char c = d \<longleftrightarrow> c = d"
proof (cases "(65 \<le> (of_char c :: nat) \<and> (of_char c :: nat) \<le> 90)
              \<or> (192 \<le> (of_char c :: nat) \<and> (of_char c :: nat) \<le> 222
                  \<and> (of_char c :: nat) \<noteq> 215)")
  case True
  then have "(of_char (lower_char c) :: nat) = of_char c + 32"
    by (auto simp add: lower_char_def)
  with True assms show ?thesis by auto
next
  case False
  then show ?thesis by (auto simp add: lower_char_def Let_def)
qed

text \<open>On ASCII text the database's LOWER is the folding of the letters A to Z.\<close>

lemma lower_char_ascii: "is_ascii c \<Longrightarrow> lower_char c = ascii_lower_char c"
  by (simp add: is_ascii_def lower_char_def ascii_lower_char_def Let_def)

lemma sql_lower_ascii: "\<forall>c\<in>set s. is_ascii c \<Longrightarrow> sql_lower s = ascii_lower s"
  by (simp add: sql_lower_def ascii_lower_def lower_char_ascii)

lemma ascii_lower_alphabet:
  "ascii_lower ''ABCDEFGHIJKLMNOPQRSTUVWXYZ'' = ''abcdefghijklmnopqrstuvwxyz''"
  by code_simp

lemma ascii_lower_char_other:
  "(of_char c :: nat) < 65 \<or> 90 < (of_char c :: nat) \<Longrightarrow> ascii_lower_char c = c"
  by (auto simp add: ascii_lower_char_def Let_def)

lemma set_py_strip: "set (py_strip q) \<subseteq> set q"
proof -
  have "set (py_strip q) \<subseteq> set (dropWhile py_isspace q)"
    unfolding py_strip_def using set_dropWhileD by fastforce
  also have "\<dots> \<subseteq> set q"
    using set_dropWhileD by fastforce
  finally show ?thesis .
qed

lemma like_wildcard_lower: "like_wildcard (lower_char c) = like_wildcard c"
  by (simp add: like_wildcard_def lower_char_eq_iff)

lemma sql_lower_percent: "sql_lower (CHR ''%'' # s @ ''%'') = CHR ''%'' # sql_lower s @ ''%''"
  by (simp add: sql_lower_def lower_char_eq_iff)

lemma like_percent_all: "like ''%'' s"
  by (induction s) auto

text \<open>A pattern that starts with literal characters matches exactly the texts that start with them.\<close>

lemma like_literal_prefix:
  "\<forall>c\<in>set q. \<not> like_wildcard c \<Longrightarrow> like (q @ ps) s \<longleftrightarrow> (\<exists>t. s = q @ t \<and> like ps t)"
proof (induction q arbitrary: s)
  case Nil
  then show ?case by simp
next
  case (Cons c q)
  then show ?case by (cases s) (auto simp: like_wildcard_def)
qed

text \<open>A leading percent sign lets the rest of the pattern match any suffix of the text.\<close>

lemma like_percent_prefix: "like (CHR ''%'' # ps) s \<longleftrightarrow> (\<exists>u t. s = u @ t \<and> like ps t)"
proof (induction s)
  case Nil
  then show ?case by (cases ps) auto
next
  case (Cons c s)
  show ?case
  proof
    assume "like (CHR ''%'' # ps) (c # s)"
    then consider "like ps (c # s)" | "like (CHR ''%'' # ps) s" by auto
    then show "\<exists>u t. c # s = u @ t \<and> like ps t"
    proof cases
      case 1
      then show ?thesis by (metis append_Nil)
    next
      case 2
      with Cons obtain u t where "s = u @ t" "like ps t" by blast
      then show ?thesis by (metis append_Cons)
    qed
  next
    assume "\<exists>u t. c # s = u @ t \<and> like ps t"
    then obtain u t where ut: "c # s = u @ t" "like ps t" by blast
    show "like (CHR ''%'' # ps) (c # s)"
    proof (cases u)
      case Nil
      with ut have "like ps (c # s)" by simp
      then show ?thesis by simp
    next
      case (Cons a u')
      with ut have "s = u' @ t" by simp
      with ut Cons.IH have "like (CHR ''%'' # ps) s" by blast
      then show ?thesis by simp
    qed
  qed
qed

lemma like_contains:
  assumes "\<forall>c\<in>set q. \<not> like_wildcard c"
  shows "like (''%'' @ q @ ''%'') s \<longleftrightarrow> sublist q s"
proof -
  have "like (''%'' @ q @ ''%'') s \<longleftrightarrow> (\<exists>u t. s = u @ t \<and> like (q @ ''%'') t)"
    using like_percent_prefix [of "q @ ''%''" s] by simp
  also have "\<dots> \<longleftrightarrow> (\<exists>u t. s = u @ t \<and> (\<exists>v. t = q @ v))"
    using like_literal_prefix [OF assms, of "''%''"] like_percent_all by simp
  also have "\<dots> \<longleftrightarrow> sublist q s"
    by (auto simp: sublist_def)
  finally show ?thesis .
qed

lemma ilike_contains:
  assumes "\<forall>c\<in>set q. \<not> like_wildcard c"
  shows "ilike n (''%'' @ q @ ''%'') \<longleftrightarrow> sublist (sql_lower q) (sql_lower n)"
proof -
  have "\<forall>c\<in>set (sql_lower q). \<not> like_wildcard c"
    using assms by (simp add: sql_lower_def like_wildcard_lower)
  from like_contains [OF this] show ?thesis
    by (simp add: ilike_def sql_lower_percent)
qed

lemma py_strip_blank: "\<forall>c\<in>set q. py_isspace c \<Longrightarrow> py_strip q = []"
proof -
  assume "\<forall>c\<in>set q. py_isspace c"
  then have d: "dropWhile py_isspace q = []" by simp
  show ?thesis unfolding py_strip_def d by simp
qed

subsection \<open>The decimal text of a count reads back as the count\<close>

lemma digit_char_value: "d < 10 \<Longrightarrow> (of_char (digit_char d) :: nat) = 48 + d"
  by (simp add: digit_char_def)

lemma digit_char_is_digit: "d < 10 \<Longrightarrow> is_digit (digit_char d)"
  by (simp add: is_digit_def digit_char_value)

lemma py_str_digits: "\<forall>c\<in>set (py_str n). is_digit c"
proof (induction n rule: py_str.induct)
  case (1 n)
  show ?case
  proof (cases "n < 10")
    case True
    then show ?thesis by (subst py_str.simps) (simp add: digit_char_is_digit)
  next
    case False
    with 1 show ?thesis by (subst py_str.simps) (simp add: digit_char_is_digit)
  qed
qed

lemma py_str_exact: "digits_value (py_str n) = n"
proof (induction n rule: py_str.induct)
  case (1 n)
  show ?case
  proof (cases "n < 10")
    case True
    then show ?thesis
      by (subst py_str.simps) (simp add: digits_value_def digit_char_is_digit digit_char_value)
  next
    case False
    have all: "filter is_digit (py_str (n div 10)) = py_str (n div 10)"
      using py_str_digits by (simp add: filter_id_conv)
    from False 1 have ih: "digits_value (py_str (n div 10)) = n div 10" by simp
    have "digits_value (py_str n) = 10 * digits_value (py_str (n div 10)) + n mod 10"
      using False
      by (subst py_str.simps)
         (simp add: digits_value_def all digit_char_is_digit digit_char_value)
    with ih show ?thesis by simp
  qed
qed

subsection \<open>The sample texts, evaluated\<close>

lemma python_float_abc: "python_float ''abc'' = None"
  by code_simp

lemma secure_filename_mug: "werkzeug_secure_filename ''mug.png'' = ''mug.png''"
  by code_simp

lemma last_segment_mug:
  "last_segment ''https://catalogstore.blob.core.windows.net/product-images/mug.png'' = ''mug.png''"
  by code_simp

lemma py_str_1: "py_str (Suc 0) = ''1''"
  by code_simp

lemma ascii_lower_red_mug: "ascii_lower ''Red Mug'' = ''red mug''"
  by code_simp

lemma ascii_lower_blue_cup: "ascii_lower ''Blue Cup'' = ''blue cup''"
  by code_simp

lemma py_strip_RED: "py_strip '' RED '' = ''RED''"
  by code_simp

lemma ascii_lower_RED: "ascii_lower ''RED'' = ''red''"
  by code_simp

lemma py_strip_underscore: "py_strip ''_'' = ''_''"
  by code_simp

lemma py_strip_space_red: "py_strip '' red'' = ''red''"
  by code_simp

lemma ilike_underscore: "ilike ''Red Mug'' ''%_%''"
  by code_simp

lemma ilike_red: "ilike ''Red Mug'' ''%red%''"
  by code_simp

lemma ascii_lower_underscore: "ascii_lower ''_'' = ''_''"
  by code_simp

lemma ascii_lower_space_red: "ascii_lower '' red'' = '' red''"
  by code_simp

lemma secure_filename_cafe:
  "werkzeug_secure_filename [CHR ''c'', CHR ''a'', CHR ''f'', CHR 0xE9, CHR ''.'', CHR ''p'',
     CHR ''n'', CHR ''g''] = ''cafe.png''"
  by code_simp

lemma ilike_latin1_capital: "ilike [CHR ''C'', CHR ''A'', CHR ''F'', CHR 0xC9] [CHR ''%'', CHR 0xE9, CHR ''%'']"
  by code_simp

section \<open>Creating a product\<close>

text \<open>
  Claim C1, as amended. A create request whose name or whose price is absent or empty is
  answered with status 400 and the state is returned as it was: no call reaches object
  storage or the database, no blob is uploaded and no row is inserted, also when an image
  is supplied. The handler tests only that both fields are present and not empty. A price
  that is present but is no number is not rejected there: the image is uploaded first, then
  \<^verbatim>\<open>float\<close> raises and the answer is status 500.
\<close>

theorem add_product_missing_field:
  assumes "form_name req = None \<or> form_name req = Some [] \<or>
           form_price req = None \<or> form_price req = Some []"
  shows "add_product env w req =
           (\<lparr>status = 400, body = JObj [(''error'', JStr ''Name and price are required'')]\<rparr>, w)"
  using assms by (auto simp: add_product_def truthy_def)

theorem add_product_missing_field_witness:
  "form_name nameless_request = None \<and> files_image nameless_request = Some mug_photo \<and>
   add_product python_env mug_shop nameless_request =
     (\<lparr>status = 400, body = JObj [(''error'', JStr ''Name and price are required'')]\<rparr>, mug_shop)"
  using add_product_missing_field [of nameless_request python_env mug_shop]
  by (simp add: nameless_request_def mug_request_def)

text \<open>
  The request with the price text \<^verbatim>\<open>abc\<close> and an image: the answer is 500, not 400, and
  the blob has been uploaded.
\<close>

theorem add_product_unparsable_price_counterexample:
  "form_name bad_price_request = Some ''Red Mug'' \<and>
   form_price bad_price_request = Some ''abc'' \<and>
   py_float python_env ''abc'' = None \<and>
   status (fst (add_product python_env empty_shop bad_price_request)) = 500 \<and>
   storage_log (snd (add_product python_env empty_shop bad_price_request)) =
     [UploadBlob ''mug.png''] \<and>
   blobs (snd (add_product python_env empty_shop bad_price_request)) ''mug.png'' = Some ''PNG''"
  by (simp add: add_product_def store_image_def service_defs sample_defs truthy_def failed_def
        Let_def python_float_abc secure_filename_mug)

text \<open>
  Claim C3. A create request with a name, a price and an image, in a state where the
  upload of that image fails with the error \<open>e\<close>: the answer is status 500, the table holds
  the rows it held and the database has received no call. Where the sanitised file name
  is not empty, so that the upload is attempted, the answer carries \<open>e\<close>.
\<close>

theorem add_product_upload_fails:
  assumes "form_name req = Some n" and "n \<noteq> []"
      and "form_price req = Some t" and "t \<noteq> []"
      and "files_image req = Some f" and "filename f \<noteq> []"
      and "fst (upload_blob (secure_filename env (filename f)) (stream f) w) = Inl e"
  shows "status (fst (add_product env w req)) = 500 \<and>
         rows (snd (add_product env w req)) = rows w \<and>
         db_log (snd (add_product env w req)) = db_log w \<and>
         (secure_filename env (filename f) \<noteq> [] \<longrightarrow>
            fst (add_product env w req) = failed ''Failed to add product'' e)"
  using assms
  by (auto simp: add_product_def store_image_def service_defs Let_def truthy_def failed_def
           split: option.splits nat.splits)

theorem add_product_upload_fails_witness:
  "fst (upload_blob ''mug.png'' ''PNG'' (mug_shop\<lparr>storage_calls_left := Some 0\<rparr>)) =
     Inl StorageError \<and>
   fst (add_product python_env (mug_shop\<lparr>storage_calls_left := Some 0\<rparr>) mug_request) =
     failed ''Failed to add product'' StorageError \<and>
   rows (snd (add_product python_env (mug_shop\<lparr>storage_calls_left := Some 0\<rparr>) mug_request)) =
     [red_mug] \<and>
   db_log (snd (add_product python_env (mug_shop\<lparr>storage_calls_left := Some 0\<rparr>) mug_request)) =
     []"
  using add_product_upload_fails [of mug_request "''Red Mug''" "''9.5''" mug_photo python_env
      "mug_shop\<lparr>storage_calls_left := Some 0\<rparr>" StorageError]
  by (simp add: sample_defs service_defs secure_filename_mug Let_def)

section \<open>Deleting one product\<close>

text \<open>
  Claim C2, as amended. Deleting an existing product whose image address names a blob that
  object storage does not hold is answered with status 500, and the row is not deleted:
  the handler has no case for the storage service's "not found", which its blanket
  exception handler treats as any other failure.
\<close>

theorem delete_product_blob_not_found:
  assumes "find (\<lambda>p. product_id p = pid) (rows w) = Some p"
      and "image_url p = Some u" and "u \<noteq> []"
      and "blobs w (last_segment u) = None"
  shows "status (fst (delete_product w pid)) = 500 \<and>
         rows (snd (delete_product w pid)) = rows w"
  using assms
  by (auto simp: delete_product_def remove_image_def service_defs Let_def truthy_def failed_def
           split: option.splits nat.splits)

theorem delete_product_blob_not_found_witness:
  "find (\<lambda>p. product_id p = 1) (rows mug_shop_blob_lost) = Some red_mug \<and>
   blobs mug_shop_blob_lost ''mug.png'' = None \<and>
   status (fst (delete_product mug_shop_blob_lost 1)) = 500 \<and>
   rows (snd (delete_product mug_shop_blob_lost 1)) = rows mug_shop_blob_lost"
  using delete_product_blob_not_found [of 1 mug_shop_blob_lost red_mug
      "''https://catalogstore.blob.core.windows.net/product-images/mug.png''"]
  by (simp add: sample_defs last_segment_mug)

text \<open>
  The catalog whose only product names the blob \<^verbatim>\<open>mug.png\<close>, which storage does not
  hold, with both services answering: the delete is answered with 500, not 200, and the
  row stays.
\<close>

theorem delete_product_blob_not_found_counterexample:
  "rows mug_shop_blob_lost = [red_mug] \<and> product_id red_mug = 1 \<and>
   image_url red_mug =
     Some ''https://catalogstore.blob.core.windows.net/product-images/mug.png'' \<and>
   blobs mug_shop_blob_lost ''mug.png'' = None \<and>
   fst (delete_product mug_shop_blob_lost 1) =
     failed ''Failed to delete product'' ResourceNotFoundError \<and>
   status (fst (delete_product mug_shop_blob_lost 1)) = 500 \<and>
   rows (snd (delete_product mug_shop_blob_lost 1)) = [red_mug]"
  by (simp add: delete_product_def remove_image_def service_defs sample_defs truthy_def failed_def
        Let_def last_segment_mug)

text \<open>
  Claim C4. Deleting an existing product with an image address, in a state where the
  deletion of its blob fails with an error other than "not found": the answer is status
  500, the table holds the rows it held, and the only call the database has received is
  the lookup, so no row delete was issued.
\<close>

theorem delete_product_storage_error:
  assumes "find (\<lambda>p. product_id p = pid) (rows w) = Some p"
      and "image_url p = Some u" and "u \<noteq> []"
      and "fst (delete_blob (last_segment u) w) = Inl e" and "e \<noteq> ResourceNotFoundError"
  shows "status (fst (delete_product w pid)) = 500 \<and>
         rows (snd (delete_product w pid)) = rows w \<and>
         db_log (snd (delete_product w pid)) = db_log w @ [SelectById pid]"
  using assms
  by (auto simp: delete_product_def remove_image_def service_defs Let_def truthy_def failed_def
           split: option.splits nat.splits)

theorem delete_product_storage_error_witness:
  "fst (delete_blob ''mug.png'' (mug_shop\<lparr>storage_calls_left := Some 0\<rparr>)) = Inl StorageError \<and>
   status (fst (delete_product (mug_shop\<lparr>storage_calls_left := Some 0\<rparr>) 1)) = 500 \<and>
   rows (snd (delete_product (mug_shop\<lparr>storage_calls_left := Some 0\<rparr>) 1)) = [red_mug] \<and>
   db_log (snd (delete_product (mug_shop\<lparr>storage_calls_left := Some 0\<rparr>) 1)) = [SelectById 1]"
  using delete_product_storage_error [of 1 "mug_shop\<lparr>storage_calls_left := Some 0\<rparr>" red_mug
      "''https://catalogstore.blob.core.windows.net/product-images/mug.png''" StorageError]
  by (simp add: sample_defs service_defs last_segment_mug Let_def)

text \<open>
  Claim C9. Deleting under an id that no row carries leaves the table, the blobs and the
  list of storage calls as they were; when the database answers the lookup, the answer is
  status 404.
\<close>

theorem delete_product_unknown_id:
  assumes "pid \<notin> product_id ` set (rows w)"
  shows "rows (snd (delete_product w pid)) = rows w \<and>
         blobs (snd (delete_product w pid)) = blobs w \<and>
         storage_log (snd (delete_product w pid)) = storage_log w \<and>
         (db_calls_left w \<noteq> Some 0 \<longrightarrow>
            fst (delete_product w pid) =
              \<lparr>status = 404, body = JObj [(''error'', JStr ''Product not found'')]\<rparr>)"
proof -
  from assms have "find (\<lambda>p. product_id p = pid) (rows w) = None"
    by (auto simp: find_None_iff)
  then show ?thesis
    by (auto simp: delete_product_def service_defs Let_def failed_def
             split: option.splits nat.splits)
qed

theorem delete_product_unknown_id_witness:
  "7 \<notin> product_id ` set (rows mug_shop) \<and>
   rows (snd (delete_product mug_shop 7)) = [red_mug] \<and>
   blobs (snd (delete_product mug_shop 7)) ''mug.png'' = Some ''PNG'' \<and>
   storage_log (snd (delete_product mug_shop 7)) = [] \<and>
   fst (delete_product mug_shop 7) =
     \<lparr>status = 404, body = JObj [(''error'', JStr ''Product not found'')]\<rparr>"
  using delete_product_unknown_id [of 7 mug_shop]
  by (simp add: sample_defs)

section \<open>Deleting every product\<close>

text \<open>
  Claim C7. Deleting all products never touches object storage: the blobs, the list of
  storage calls and the storage service's state are as they were. When the database
  answers, the table is empty afterwards and the message of the 200 answer holds the
  number of rows the table held, in decimal (by \<open>py_str_exact\<close> that text reads back as
  the same number).
\<close>

theorem delete_all_products_rows_only:
  "blobs (snd (delete_all_products w)) = blobs w \<and>
   storage_log (snd (delete_all_products w)) = storage_log w \<and>
   storage_calls_left (snd (delete_all_products w)) = storage_calls_left w \<and>
   (db_calls_left w \<noteq> Some 0 \<longrightarrow>
      rows (snd (delete_all_products w)) = [] \<and>
      fst (delete_all_products w) =
        \<lparr>status = 200,
         body = JObj [(''message'',
                       JStr (''Deleted '' @ py_str (length (rows w)) @ '' products''))]\<rparr>)"
  by (auto simp: delete_all_products_def service_defs Let_def failed_def
           split: option.splits nat.splits)

theorem delete_all_products_rows_only_witness:
  "blobs (snd (delete_all_products mug_shop)) ''mug.png'' = Some ''PNG'' \<and>
   storage_log (snd (delete_all_products mug_shop)) = [] \<and>
   rows (snd (delete_all_products mug_shop)) = [] \<and>
   fst (delete_all_products mug_shop) =
     \<lparr>status = 200, body = JObj [(''message'', JStr ''Deleted 1 products'')]\<rparr>"
  using delete_all_products_rows_only [of mug_shop]
  by (simp add: sample_defs py_str_1)

section \<open>Listing and searching\<close>

text \<open>
  Claim C5, as amended. Take a catalog whose product names are ASCII text and a query
  that is ASCII text, and let \<open>s\<close> be the query with surrounding white space stripped.
  When \<open>s\<close> is not empty and holds none of the pattern characters of LIKE (the percent
  sign, the underscore and the opening bracket), and the database answers, the search
  returns, in table order, exactly the products whose name contains \<open>s\<close> as a contiguous
  piece, the case of the letters A to Z ignored. The handler strips the query and puts it
  unescaped between two percent signs, so a query is matched as a pattern, not as a
  literal text. The opening bracket is excluded because the database at hand reads it as
  the start of a character class, which \<open>like\<close> does not interpret. The statement stays
  within ASCII because how letters beyond it compare is settled by the collation of the
  database, which the program does not choose.
\<close>

theorem search_products_contains:
  assumes "\<forall>c\<in>set q. is_ascii c"
      and "\<forall>p\<in>set (rows w). \<forall>c\<in>set (name p). is_ascii c"
      and "py_strip q \<noteq> []"
      and "\<forall>c\<in>set (py_strip q). \<not> like_wildcard c"
      and "db_calls_left w \<noteq> Some 0"
  shows "fst (search_products w (Some q)) =
           \<lparr>status = 200,
            body = JArr (map product_json
                     (filter (\<lambda>p. sublist (ascii_lower (py_strip q)) (ascii_lower (name p)))
                        (rows w)))\<rparr>"
proof -
  have query: "sql_lower (py_strip q) = ascii_lower (py_strip q)"
    using assms(1) set_py_strip [of q] by (intro sql_lower_ascii) blast
  have "filter (\<lambda>p. ilike (name p) (''%'' @ py_strip q @ ''%'')) (rows w) =
        filter (\<lambda>p. sublist (ascii_lower (py_strip q)) (ascii_lower (name p))) (rows w)"
  proof (rule filter_cong [OF refl])
    fix p assume "p \<in> set (rows w)"
    with assms(2) have "sql_lower (name p) = ascii_lower (name p)"
      by (intro sql_lower_ascii) blast
    with query ilike_contains [OF assms(4), of "name p"]
    show "ilike (name p) (''%'' @ py_strip q @ ''%'') =
          sublist (ascii_lower (py_strip q)) (ascii_lower (name p))"
      by simp
  qed
  with assms(3,5) show ?thesis
    by (auto simp: search_products_def query_ilike_def db_round_trip_def Let_def
             split: option.splits nat.splits)
qed

theorem search_products_contains_witness:
  "is_ascii CHR ''R'' \<and> py_strip '' RED '' = ''RED'' \<and> db_calls_left two_item_shop = None \<and>
   rows two_item_shop = [red_mug, blue_cup] \<and>
   fst (search_products two_item_shop (Some '' RED '')) =
     \<lparr>status = 200, body = JArr [product_json red_mug]\<rparr>"
  using search_products_contains [of "'' RED ''" two_item_shop]
  by (simp add: py_strip_RED ascii_lower_RED sample_defs like_wildcard_def is_ascii_def
        ascii_lower_red_mug ascii_lower_blue_cup sublist_code(3))

text \<open>
  Two ASCII queries that are not empty and return a product whose name, ASCII as well,
  does not contain them in any letter case: the underscore, and \<^verbatim>\<open>red\<close> after a space.
\<close>

theorem search_products_contains_counterexample:
  "fst (search_products mug_shop (Some ''_'')) =
     \<lparr>status = 200, body = JArr [product_json red_mug]\<rparr> \<and>
   \<not> sublist (ascii_lower ''_'') (ascii_lower (name red_mug)) \<and>
   fst (search_products mug_shop (Some '' red'')) =
     \<lparr>status = 200, body = JArr [product_json red_mug]\<rparr> \<and>
   \<not> sublist (ascii_lower '' red'') (ascii_lower (name red_mug))"
  by (simp add: search_products_def query_ilike_def db_round_trip_def Let_def
        py_strip_underscore py_strip_space_red ilike_underscore ilike_red
        ascii_lower_underscore ascii_lower_space_red ascii_lower_red_mug sublist_code(3)
        mug_shop_def empty_shop_def red_mug_def)

text \<open>
  Claim C6. A search without a query, or with the empty query, is the listing of all
  products: the same answer and the same effect on the state.
\<close>

theorem search_products_no_query:
  "search_products w None = get_products w \<and> search_products w (Some []) = get_products w"
  by (simp add: search_products_def py_strip_def)

theorem search_products_no_query_witness:
  "search_products mug_shop None = get_products mug_shop \<and>
   search_products mug_shop (Some []) = get_products mug_shop"
  using search_products_no_query [of mug_shop] by simp

text \<open>
  Claim C10. A search whose query holds white space only is the listing of all products:
  the query is stripped before it is tested for emptiness.
\<close>

theorem search_products_blank_query:
  assumes "\<forall>c\<in>set q. py_isspace c"
  shows "search_products w (Some q) = get_products w"
  using py_strip_blank [OF assms] by (simp add: search_products_def)

theorem search_products_blank_query_witness:
  "py_isspace CHR '' '' \<and> search_products mug_shop (Some ''  '') = get_products mug_shop"
  using search_products_blank_query [of "''  ''" mug_shop]
  by (simp add: py_isspace_def)

subsection \<open>The image address in the answers\<close>

lemma json_field_image_url:
  "json_field ''image_url'' (product_json p) =
     Some (JStr (case image_url p of None \<Rightarrow> [] | Some u \<Rightarrow> u))"
  by (simp add: json_field_def product_json_def split: option.splits)

lemma get_products_body:
  "body (fst (get_products w)) = JArr objs \<Longrightarrow> objs = map product_json (rows w)"
  by (auto simp: get_products_def query_all_def db_round_trip_def Let_def failed_def
           split: option.splits nat.splits)

lemma search_products_body:
  "body (fst (search_products w q)) = JArr objs \<Longrightarrow>
     \<exists>ps. set ps \<subseteq> set (rows w) \<and> objs = map product_json ps"
proof (cases "py_strip (case q of None \<Rightarrow> [] | Some s \<Rightarrow> s) = []")
  case True
  assume "body (fst (search_products w q)) = JArr objs"
  with True have "objs = map product_json (rows w)"
    by (simp add: search_products_def get_products_body)
  then show ?thesis by blast
next
  case False
  assume "body (fst (search_products w q)) = JArr objs"
  with False
  have "objs = map product_json
          (filter (\<lambda>p. ilike (name p)
             (''%'' @ py_strip (case q of None \<Rightarrow> [] | Some s \<Rightarrow> s) @ ''%'')) (rows w))"
    by (auto simp: search_products_def query_ilike_def db_round_trip_def Let_def failed_def
             split: option.splits nat.splits)
  moreover have "set (filter (\<lambda>p. ilike (name p)
             (''%'' @ py_strip (case q of None \<Rightarrow> [] | Some s \<Rightarrow> s) @ ''%'')) (rows w))
          \<subseteq> set (rows w)"
    by simp
  ultimately show ?thesis by blast
qed

text \<open>
  Claim C8. Every object of the array that the listing or the search returns is the
  rendering of a row of the table, and holds under \<^verbatim>\<open>image_url\<close> a JSON string: the
  row's image address, and the empty string when the row has none. The field is never
  null and never left out.
\<close>

theorem image_url_never_null:
  assumes "r = fst (get_products w) \<or> r = fst (search_products w q)"
      and "body r = JArr objs" and "obj \<in> set objs"
  shows "\<exists>p\<in>set (rows w). obj = product_json p \<and>
           json_field ''image_url'' obj =
             Some (JStr (case image_url p of None \<Rightarrow> [] | Some u \<Rightarrow> u))"
proof -
  from assms(1,2) obtain ps where ps: "set ps \<subseteq> set (rows w)" "objs = map product_json ps"
    using get_products_body [of w objs] search_products_body [of w q objs] by blast
  with assms(3) obtain p where "p \<in> set ps" "obj = product_json p" by auto
  with ps show ?thesis using json_field_image_url by blast
qed

theorem image_url_never_null_witness:
  "body (fst (get_products two_item_shop)) = JArr [product_json red_mug, product_json blue_cup] \<and>
   image_url blue_cup = None \<and>
   json_field ''image_url'' (product_json blue_cup) = Some (JStr [])"
  using image_url_never_null [of "fst (get_products two_item_shop)" two_item_shop None
      "[product_json red_mug, product_json blue_cup]" "product_json blue_cup"]
  by (simp add: get_products_def query_all_def db_round_trip_def Let_def product_json_def
        sample_defs)

end
